theory Spec2Isabelle
  imports Complex_Main
begin

section \<open>Python errors and sequencing\<close>

text \<open>
  The module \<^verbatim>\<open>gsam_combined.py\<close> defines one class, \<^verbatim>\<open>GSamNetwork\<close>. Its methods are
  embedded as HOL functions. Every \<^verbatim>\<open>raise\<close>, and every error that Python itself raises
  (an unbound local, a missing attribute, a failed tuple unpacking, an index out of
  range), is a value \<open>Inl e\<close> of the result type \<open>py_error + 'a\<close>.

  The \<^verbatim>\<open>ValueError\<close>s of the module differ only in their message; the message is kept
  as a constructor of \<open>value_error\<close>:
  \<^item> \<open>SAM_does_not_exist\<close>: "The specified SAM model ... does not exist" (line 23);
  \<^item> \<open>SAM_MODEL_does_not_exist\<close>: "The selected SAM model ... does not exist" (lines 44, 61);
  \<^item> \<open>coords_without_labels\<close>: "If 'points_coords' is provided, 'points_labels' must
    also be provided, and vice versa." (lines 245, 383);
  \<^item> \<open>labels_without_coords\<close>: "If 'points_labels' is provided, 'points_coords' must
    also be provided, and vice versa." (lines 247, 385);
  \<^item> \<open>lengths_must_match\<close>: "The lengths of 'images', 'boxes', 'points_coords', and
    'points_labels' must match." (line 256);
  \<^item> \<open>unpack_mismatch n k\<close>: Python's own error when a sequence of \<open>k\<close> values is
    unpacked into \<open>n\<close> names ("not enough values to unpack (expected n, got k)").
  The other errors carry the name they complain about.
\<close>

datatype value_error =
    SAM_does_not_exist
  | SAM_MODEL_does_not_exist
  | coords_without_labels
  | labels_without_coords
  | lengths_must_match
  | unpack_mismatch nat nat

datatype py_error =
    TypeError string
  | ValueError value_error
  | AttributeError string
  | RuntimeError string
  | RecursionError
  | NameError string
  | UnboundLocalError string
  | IndexError string

text \<open>Sequencing of fallible steps: the first error ends the computation.\<close>

definition seq :: "py_error + 'a \<Rightarrow> ('a \<Rightarrow> py_error + 'b) \<Rightarrow> py_error + 'b" where
  "seq m f = (case m of Inl e \<Rightarrow> Inl e | Inr x \<Rightarrow> f x)"

text \<open>
  The same with a state \<open>'s\<close> (a log of the effects so far) threaded through: a step
  returns its result and the state it leaves, also when it fails.
\<close>

definition seqS ::
  "(py_error + 'a) \<times> 's \<Rightarrow> ('a \<Rightarrow> 's \<Rightarrow> (py_error + 'b) \<times> 's) \<Rightarrow> (py_error + 'b) \<times> 's" where
  "seqS m f = (case m of (Inl e, s) \<Rightarrow> (Inl e, s) | (Inr x, s) \<Rightarrow> f x s)"

definition succeeded :: "(py_error + 'a) \<Rightarrow> bool" where
  "succeeded r = (case r of Inl e \<Rightarrow> False | Inr x \<Rightarrow> True)"

section \<open>Construction: \<^verbatim>\<open>GSamNetwork.__init__\<close>\<close>

text \<open>
  Values that \<^verbatim>\<open>__init__\<close> receives and stores. \<open>PyOther\<close> stands for any value that is
  neither \<^verbatim>\<open>None\<close> nor a \<^verbatim>\<open>str\<close> (a list, a number): \<^verbatim>\<open>isinstance(SAM, str)\<close> is false
  for it.
\<close>

datatype pyval = PyNone | PyStr string | PyDevice string | PyModel string | PyOther

text \<open>
  What the class body binds. Every \<^verbatim>\<open>def\<close> is a plain function (a non-data descriptor:
  an instance attribute of the same name could be assigned). \<^verbatim>\<open>device\<close> is declared with
  \<^verbatim>\<open>@property\<close> and no setter (lines 368-370): a data descriptor whose \<^verbatim>\<open>__set__\<close> raises
  \<^verbatim>\<open>AttributeError\<close>. Private names are mangled by the compiler
  (\<^verbatim>\<open>self.__file_path\<close> is \<^verbatim>\<open>_GSamNetwork__file_path\<close>).
\<close>

datatype class_attr = Method | Property_without_setter

definition GSamNetwork_class :: "string \<Rightarrow> class_attr option" where
  "GSamNetwork_class = map_of
     [(''__init__'', Method),
      (''_GSamNetwork__Build_GroundingDINO'', Method),
      (''_GSamNetwork__Build_SAM1'', Method),
      (''_GSamNetwork__Build_SAM2'', Method),
      (''predict_dino'', Method),
      (''predict_dino_batch'', Method),
      (''predict_SAM1'', Method),
      (''predict_SAM1_batch'', Method),
      (''predict_batch'', Method),
      (''LangSam_batch'', Method),
      (''reset_model'', Method),
      (''device'', Property_without_setter),
      (''_GSamNetwork__prep_prompts'', Method)]"

type_synonym py_instance = "string \<rightharpoonup> pyval"

text \<open>
  \<^verbatim>\<open>self.name = v\<close>: a data descriptor of the class wins over the instance dictionary;
  the property has no setter, so the assignment raises.
\<close>

definition py_setattr :: "py_instance \<Rightarrow> string \<Rightarrow> pyval \<Rightarrow> py_error + py_instance" where
  "py_setattr self name v =
     (case GSamNetwork_class name of
        Some Property_without_setter \<Rightarrow> Inl (AttributeError name)
      | _ \<Rightarrow> Inr (self(name \<mapsto> v)))"

text \<open>
  Reading \<^verbatim>\<open>self.name\<close>. The getter of \<^verbatim>\<open>device\<close> is \<^verbatim>\<open>return self.device\<close>: it
  re-enters itself until the interpreter's recursion limit, a \<^verbatim>\<open>RecursionError\<close>.
  Methods are never read as values by the code modelled here.
\<close>

definition py_getattr :: "py_instance \<Rightarrow> string \<Rightarrow> py_error + pyval" where
  "py_getattr self name =
     (case GSamNetwork_class name of
        Some Property_without_setter \<Rightarrow> Inl RecursionError
      | Some Method \<Rightarrow> Inr PyOther
      | None \<Rightarrow> (case self name of Some v \<Rightarrow> Inr v | None \<Rightarrow> Inl (AttributeError name)))"

text \<open>
  The collaborators of construction. \<^verbatim>\<open>SAM_NAMES_MODELS\<close> and \<^verbatim>\<open>SAM1_MODELS\<close> come from
  \<^verbatim>\<open>segment_anything.config\<close>, and the hub download and the model loaders from other
  packages: none is in the sources, so they are parameters.
\<close>

record build_env =
  SAM_NAMES_MODELS :: "string list"
  SAM1_MODELS :: "(string \<times> string) list"
  module_dir :: string
  cuda_is_available :: bool
  hf_hub_download :: "string \<Rightarrow> string \<Rightarrow> py_error + string"
  load_model :: "string \<Rightarrow> string \<Rightarrow> pyval \<Rightarrow> py_error + pyval"

text \<open>The effects of construction, in order.\<close>

datatype build_event =
    Printed string
  | Downloaded string string
  | Model_loaded string

definition models_loaded :: "build_event list \<Rightarrow> string list" where
  "models_loaded evs = concat (map (\<lambda>ev. case ev of Model_loaded m \<Rightarrow> [m] | _ \<Rightarrow> []) evs)"

definition say :: "string \<Rightarrow> build_event list \<Rightarrow> (py_error + unit) \<times> build_event list" where
  "say msg evs = (Inr (), evs @ [Printed msg])"

text \<open>
  \<^verbatim>\<open>__Build_GroundingDINO\<close> (lines 69-85): two downloads under a bare \<^verbatim>\<open>except\<close>, then
  \<^verbatim>\<open>self.groundingdino = load_model(..., device=self.device)\<close> under
  \<^verbatim>\<open>except Exception\<close>; both handlers raise \<^verbatim>\<open>RuntimeError\<close>.
\<close>

definition Build_GroundingDINO ::
  "build_env \<Rightarrow> py_instance \<Rightarrow> build_event list \<Rightarrow> (py_error + py_instance) \<times> build_event list" where
  "Build_GroundingDINO env self evs =
     (let repo_id = ''ShilongLiu/GroundingDINO'';
          filename = ''groundingdino_swint_ogc.pth'';
          cache_config = ''GroundingDINO_SwinT_OGC.cfg.py''
      in case hf_hub_download env repo_id cache_config of
           Inl e \<Rightarrow> (Inl (RuntimeError ''Error downloading GroundingDINO model''), evs)
         | Inr cache_config_file \<Rightarrow>
             (case hf_hub_download env repo_id filename of
                Inl e \<Rightarrow>
                  (Inl (RuntimeError ''Error downloading GroundingDINO model''),
                   evs @ [Downloaded repo_id cache_config])
              | Inr pth_file \<Rightarrow>
                  (let evs' = evs @ [Downloaded repo_id cache_config, Downloaded repo_id filename]
                   in case seq (py_getattr self ''device'')
                             (\<lambda>dev. seq (load_model env cache_config_file pth_file dev)
                               (\<lambda>m. py_setattr self ''groundingdino'' m)) of
                        Inl e \<Rightarrow>
                          (Inl (RuntimeError ''An error occurred while loading the GroundingDINO model''),
                           evs')
                      | Inr self' \<Rightarrow> (Inr self', evs' @ [Model_loaded ''GroundingDINO'']))))"

text \<open>
  \<^verbatim>\<open>__Build_SAM1\<close> (lines 89-108). The first statement under \<^verbatim>\<open>try\<close> is
  \<^verbatim>\<open>checkpoint_url = SAM1_MODELS[SAM1]\<close>. The parameter is \<^verbatim>\<open>SAM\<close>, and the only binding of
  a name \<^verbatim>\<open>SAM1\<close> in the module is the assignment of line 398, which takes place after
  the constructor has returned: the lookup raises \<^verbatim>\<open>NameError\<close>. The handler of line 102
  formats its message with \<^verbatim>\<open>checkpoint_url\<close>, which was never assigned, and so raises
  \<^verbatim>\<open>UnboundLocalError\<close> itself. Nothing else of the method runs, for any argument.
\<close>

definition Build_SAM1 ::
  "build_env \<Rightarrow> py_instance \<Rightarrow> build_event list \<Rightarrow> string \<Rightarrow> (py_error + py_instance) \<times> build_event list" where
  "Build_SAM1 env self evs SAM = (Inl (UnboundLocalError ''checkpoint_url''), evs)"

text \<open>\<^verbatim>\<open>__Build_SAM2\<close> (lines 113-121) is \<^verbatim>\<open>pass\<close>.\<close>

definition Build_SAM2 ::
  "build_env \<Rightarrow> py_instance \<Rightarrow> build_event list \<Rightarrow> string \<Rightarrow> (py_error + py_instance) \<times> build_event list" where
  "Build_SAM2 env self evs SAM = (Inr self, evs)"

text \<open>
  \<^verbatim>\<open>try: build except Exception as e: print(...)\<close> (lines 38-41, 46-49, 55-58, 63-66):
  a failure is printed and construction goes on with the instance as it was.
\<close>

definition try_print ::
  "py_instance \<Rightarrow> (py_error + py_instance) \<times> build_event list \<Rightarrow> (py_error + py_instance) \<times> build_event list" where
  "try_print self r =
     (case r of
        (Inl e, evs) \<Rightarrow> (Inr self, evs @ [Printed ''An error occurred while loading the model''])
      | (Inr self', evs) \<Rightarrow> (Inr self', evs))"

text \<open>Lines 34-66: the branch on the selector, after the detector is built.\<close>

definition select_SAM ::
  "build_env \<Rightarrow> string \<Rightarrow> pyval \<Rightarrow> py_instance \<Rightarrow> build_event list \<Rightarrow> (py_error + py_instance) \<times> build_event list" where
  "select_SAM env SAM SAM_MODEL self evs =
     (if SAM = ''SAM1'' then
        seqS (say ''SAM1 selected'' evs) (\<lambda>_ evs.
          if SAM_MODEL = PyNone then
            seqS (say ''Warning: No SAM1 model selected'' evs) (\<lambda>_ evs.
              try_print self (Build_SAM1 env self evs ''vit_h''))
          else
            (case SAM_MODEL of
               PyStr m \<Rightarrow>
                 if m \<notin> fst ` set (SAM1_MODELS env) then (Inl (ValueError SAM_MODEL_does_not_exist), evs)
                 else seqS (say ''Notice: Loading the model'' evs) (\<lambda>_ evs.
                        try_print self (Build_SAM1 env self evs m))
             | _ \<Rightarrow> (Inl (ValueError SAM_MODEL_does_not_exist), evs)))
      else if SAM = ''SAM2'' then
        seqS (say ''SAM2 selected'' evs) (\<lambda>_ evs.
          if SAM_MODEL = PyNone then
            seqS (say ''Warning: No SAM2 model selected'' evs) (\<lambda>_ evs.
              try_print self (Build_SAM2 env self evs ''large''))
          else (Inl (NameError ''SAM2_MODELS''), evs))
      else (Inr self, evs))"

text \<open>
  \<^verbatim>\<open>__init__\<close> (lines 18-66). The selector is validated (lines 20-23), then five
  attributes are assigned (\<open>init_attributes\<close>, lines 25-29), the last of them
  \<^verbatim>\<open>self.device\<close>; only then are the models built (line 32 on). The result is the
  instance, or the error raised, with the effects up to that point.
\<close>

definition init_attributes :: "build_env \<Rightarrow> py_error + py_instance" where
  "init_attributes env =
     seq (py_setattr Map.empty ''_GSamNetwork__file_path'' (PyStr (module_dir env))) (\<lambda>self.
     seq (py_getattr self ''_GSamNetwork__file_path'') (\<lambda>p.
     seq (py_setattr self ''weights_path''
            (case p of PyStr d \<Rightarrow> PyStr (d @ ''/weights'') | _ \<Rightarrow> PyOther)) (\<lambda>self.
     seq (py_setattr self ''default_sam1'' (PyStr ''vit_h'')) (\<lambda>self.
     seq (py_setattr self ''default_sam2'' (PyStr ''large'')) (\<lambda>self.
     py_setattr self ''device''
       (PyDevice (if cuda_is_available env then ''cuda'' else ''cpu'')))))))"

definition GSamNetwork_init ::
  "build_env \<Rightarrow> pyval \<Rightarrow> pyval \<Rightarrow> (py_error + py_instance) \<times> build_event list" where
  "GSamNetwork_init env SAM SAM_MODEL =
     (case SAM of
        PyStr sam \<Rightarrow>
          (if sam \<notin> set (SAM_NAMES_MODELS env) then (Inl (ValueError SAM_does_not_exist), [])
           else
             seqS (init_attributes env, []) (\<lambda>self evs.
             seqS (say ''Loading GroundDINO model'' evs) (\<lambda>_ evs.
             seqS (Build_GroundingDINO env self evs) (\<lambda>self evs.
             select_SAM env sam SAM_MODEL self evs))))
      | _ \<Rightarrow> (Inl (TypeError ''The SAM model should be a single value''), []))"

section \<open>Arrays, tensors and the collaborators of inference\<close>

text \<open>
  The canonical image array that \<^verbatim>\<open>change_image_instance\<close> returns: its \<^verbatim>\<open>shape\<close> and its
  pixel data. The code reads nothing of it but \<^verbatim>\<open>shape[:2]\<close>.
\<close>

record image_array =
  img_shape :: "nat list"
  img_data :: "nat list"

text \<open>
  A box tensor of shape (N, 4) is the list of its rows. Coordinates are floats in the
  code; they are reals here, so rounding is not modelled. Point coordinates and point
  labels are only handed on by the code.
\<close>

type_synonym box = "real \<times> real \<times> real \<times> real"
type_synonym boxes = "box list"
type_synonym points = "(real \<times> real) list"
type_synonym labels = "int list"

text \<open>
  A boolean tensor: its shape and its element at each index (one index per dimension,
  all that matters are the indices inside the shape). An extent may be 0, and the
  shape is still known.
\<close>

record mask_tensor =
  shape :: "nat list"
  elem :: "nat list \<Rightarrow> bool"

text \<open>
  \<^verbatim>\<open>torch.any(t, dim=0)\<close>: the first dimension is reduced by logical OR; over an extent
  of 0 the result is all \<^verbatim>\<open>False\<close>. On a 0-dimensional tensor it is the tensor itself.
\<close>

definition torch_any_dim0 :: "mask_tensor \<Rightarrow> mask_tensor" where
  "torch_any_dim0 t =
     (case shape t of
        [] \<Rightarrow> t
      | n # rest \<Rightarrow> \<lparr> shape = rest, elem = (\<lambda>idx. list_ex (\<lambda>i. elem t (i # idx)) [0..<n]) \<rparr>)"

fun index_of :: "nat \<Rightarrow> nat list \<Rightarrow> nat" where
  "index_of k [] = 0"
| "index_of k (d # ds) = (if d = k then 0 else Suc (index_of k ds))"

text \<open>
  \<^verbatim>\<open>t.permute(*dims)\<close>: dimension \<open>j\<close> of the result is dimension \<open>dims ! j\<close> of \<open>t\<close>.
  \<^verbatim>\<open>RuntimeError\<close> unless \<open>dims\<close> is a permutation of the dimensions of \<open>t\<close>.
\<close>

definition torch_permute :: "nat list \<Rightarrow> mask_tensor \<Rightarrow> py_error + mask_tensor" where
  "torch_permute dims t =
     (if length dims = length (shape t) \<and> distinct dims \<and> list_all (\<lambda>d. d < length dims) dims
      then Inr \<lparr> shape = map (\<lambda>d. shape t ! d) dims,
                 elem = (\<lambda>idx. elem t (map (\<lambda>k. idx ! index_of k dims) [0..<length dims])) \<rparr>
      else Inl (RuntimeError ''permute: number of dimensions does not match''))"

text \<open>
  The calls made on the segmenter \<^verbatim>\<open>self.SAM1\<close>, in order. A call of \<^verbatim>\<open>set_image\<close> that
  raised is recorded as such.
\<close>

datatype sam_event =
    Set_image image_array
  | Set_image_failed image_array
  | Predict_torch points labels boxes
  | Reset_image

text \<open>
  The image context of the segmenter after a sequence of calls: the image of the last
  \<^verbatim>\<open>set_image\<close> that returned, nothing after a \<^verbatim>\<open>reset_image\<close>. What the segmenter holds
  after a \<^verbatim>\<open>set_image\<close> that raised is not known from the sources.
\<close>

datatype image_context = No_image | Image_held image_array | Unknown_context

definition image_held :: "sam_event list \<Rightarrow> image_context" where
  "image_held evs =
     foldl (\<lambda>cur ev. case ev of
                       Set_image a \<Rightarrow> Image_held a
                     | Set_image_failed a \<Rightarrow> Unknown_context
                     | Reset_image \<Rightarrow> No_image
                     | Predict_torch c l b \<Rightarrow> cur)
       No_image evs"

text \<open>
  The names bound in the module's namespace when a method runs: the imports of lines
  1-15, the class statement of line 17 and the import from \<^verbatim>\<open>utils\<close> of lines 397/400.
  A name that is read and not bound there (and is no builtin) raises \<^verbatim>\<open>NameError\<close>.
\<close>

definition module_globals :: "string list" where
  "module_globals =
     [''sys'', ''os'', ''torch'', ''np'', ''Image'', ''hf_hub_download'',
      ''List'', ''Union'', ''Tuple'', ''Optional'',
      ''sam_model_registry'', ''SamPredictor'', ''SAM1_MODELS'', ''SAM_NAMES_MODELS'',
      ''predict'', ''load_model'', ''box_ops'', ''GSamNetwork'',
      ''load_trans_image'', ''change_image_instance'', ''process_box_batch'', ''process_masks'']"

definition load_global :: "string \<Rightarrow> py_error + unit" where
  "load_global name = (if name \<in> set module_globals then Inr () else Inl (NameError name))"

text \<open>
  What the methods call and the sources do not hold; all of it is a parameter.
  \<^item> \<^verbatim>\<open>load_trans_image\<close>, \<^verbatim>\<open>change_image_instance\<close>, \<^verbatim>\<open>process_box_batch\<close>: imported
    from the package's \<^verbatim>\<open>utils\<close> module.
  \<^item> \<^verbatim>\<open>predict\<close> and \<^verbatim>\<open>box_ops.box_cxcywh_to_xyxy\<close> of GroundingDINO (\<open>dino_predict\<close>,
    which is given the model and the device, and \<open>box_cxcywh_to_xyxy\<close>).
  \<^item> The segmenter \<^verbatim>\<open>self.SAM1\<close>, taken as present: \<^verbatim>\<open>transform.apply_boxes_torch\<close>,
    \<^verbatim>\<open>transform.apply_coords_torch\<close>, \<^verbatim>\<open>set_image\<close>, \<^verbatim>\<open>predict_torch\<close>. The last two may
    depend on the calls made before.
  \<^item> \<open>postprocess_box\<close>, \<open>postprocess_masks\<close>, \<open>predict_sam_with_boxes\<close>: what the
    functions of these names would do. The module binds none of the first two names
    and the class does not define the third, so the methods look the name up first
    (\<open>load_global\<close>, \<open>py_getattr\<close>) and these parameters are reached only if the lookup
    succeeds.
  The three coordinate transforms are arithmetic on well-formed tensors and are taken
  as total.
\<close>

record ('img, 'timg) env =
  load_trans_image :: "'img \<Rightarrow> py_error + 'timg"
  change_image_instance :: "'img \<Rightarrow> py_error + image_array"
  dino_predict ::
    "pyval \<Rightarrow> 'timg \<Rightarrow> string \<Rightarrow> real \<Rightarrow> real \<Rightarrow> pyval
       \<Rightarrow> py_error + boxes \<times> real list \<times> string list"
  box_cxcywh_to_xyxy :: "boxes \<Rightarrow> boxes"
  postprocess_box ::
    "boxes \<Rightarrow> real list \<Rightarrow> string list \<Rightarrow> py_error + boxes \<times> real list \<times> string list"
  process_box_batch ::
    "nat list \<Rightarrow> boxes list \<Rightarrow> real list list \<Rightarrow> string list list \<Rightarrow> real
       \<Rightarrow> py_error + boxes list \<times> real list list \<times> string list list"
  apply_boxes_torch :: "boxes \<Rightarrow> nat \<times> nat \<Rightarrow> boxes"
  apply_coords_torch :: "points \<Rightarrow> nat \<times> nat \<Rightarrow> points"
  sam_set_image :: "sam_event list \<Rightarrow> image_array \<Rightarrow> py_error + unit"
  sam_predict_torch :: "sam_event list \<Rightarrow> points \<Rightarrow> labels \<Rightarrow> boxes \<Rightarrow> py_error + mask_tensor"
  postprocess_masks :: "mask_tensor \<Rightarrow> nat \<Rightarrow> py_error + mask_tensor"
  predict_sam_with_boxes ::
    "'img \<Rightarrow> boxes list \<Rightarrow> sam_event list \<Rightarrow> (py_error + mask_tensor) \<times> sam_event list"

text \<open>The three calls on the segmenter as steps on the log of calls.\<close>

definition set_image ::
  "('img, 'timg) env \<Rightarrow> image_array \<Rightarrow> sam_event list \<Rightarrow> (py_error + unit) \<times> sam_event list" where
  "set_image env a evs =
     (case sam_set_image env evs a of
        Inl e \<Rightarrow> (Inl e, evs @ [Set_image_failed a])
      | Inr u \<Rightarrow> (Inr (), evs @ [Set_image a]))"

definition predict_torch ::
  "('img, 'timg) env \<Rightarrow> points \<Rightarrow> labels \<Rightarrow> boxes \<Rightarrow> sam_event list
     \<Rightarrow> (py_error + mask_tensor) \<times> sam_event list" where
  "predict_torch env c l b evs = (sam_predict_torch env evs c l b, evs @ [Predict_torch c l b])"

definition reset_image :: "sam_event list \<Rightarrow> (py_error + unit) \<times> sam_event list" where
  "reset_image evs = (Inr (), evs @ [Reset_image])"

text \<open>
  \<^verbatim>\<open>x.to(device)\<close> on an optional tensor: \<^verbatim>\<open>None\<close> has no attribute \<^verbatim>\<open>to\<close>.
\<close>

definition to_device :: "'a option \<Rightarrow> py_error + 'a" where
  "to_device x = (case x of None \<Rightarrow> Inl (AttributeError ''to'') | Some t \<Rightarrow> Inr t)"

text \<open>\<^verbatim>\<open>a, b = xs\<close> for a tuple \<open>xs\<close> of any length.\<close>

definition unpack2 :: "nat list \<Rightarrow> py_error + nat \<times> nat" where
  "unpack2 xs =
     (case xs of
        [a, b] \<Rightarrow> Inr (a, b)
      | _ \<Rightarrow> Inl (ValueError (unpack_mismatch 2 (length xs))))"

text \<open>
  \<^verbatim>\<open>boxes * torch.Tensor([a, b, c, d])\<close>: the vector is broadcast over the rows.
\<close>

definition mul_boxes :: "boxes \<Rightarrow> box \<Rightarrow> boxes" where
  "mul_boxes bs v =
     (case v of (a, b, c, d) \<Rightarrow> map (\<lambda>(x0, y0, x1, y1). (x0 * a, y0 * b, x1 * c, y1 * d)) bs)"

section \<open>Prompt preparation: \<^verbatim>\<open>__prep_prompts\<close>\<close>

text \<open>A local variable of a Python function: bound to a value, or not yet assigned.\<close>

datatype 'a local_var = Unbound | Bound 'a

text \<open>\<^verbatim>\<open>np.clip(x, lo, hi)\<close>.\<close>

definition np_clip :: "real \<Rightarrow> real \<Rightarrow> real \<Rightarrow> real" where
  "np_clip x lo hi = min (max x lo) hi"

text \<open>\<^verbatim>\<open>boxes[0][0]\<close>: an empty tensor has no row 0.\<close>

definition first_coord :: "boxes \<Rightarrow> py_error + real" where
  "first_coord bs =
     (case bs of
        [] \<Rightarrow> Inl (IndexError ''index 0 is out of bounds for dimension 0 with size 0'')
      | (cx, cy, w, h) # rest \<Rightarrow> Inr cx)"

text \<open>
  Lines 374-380, the state of the local \<^verbatim>\<open>transformed_boxes\<close> after them. When boxes are
  given and clipping the first coordinate to [0, 1] changes it, neither branch assigns
  the variable.
\<close>

definition prep_boxes ::
  "('img, 'timg) env \<Rightarrow> boxes option \<Rightarrow> nat \<Rightarrow> nat \<Rightarrow> py_error + boxes option local_var" where
  "prep_boxes env boxes W H =
     (case boxes of
        Some bs \<Rightarrow>
          seq (first_coord bs) (\<lambda>v.
            let clip_valor = np_clip v 0 1 in
            if clip_valor = v then
              (let bs' = mul_boxes (box_cxcywh_to_xyxy env bs) (real W, real H, real W, real H)
               in Inr (Bound (Some (apply_boxes_torch env bs' (W, H)))))
            else Inr Unbound)
      | None \<Rightarrow> Inr (Bound None))"

text \<open>Lines 382-390: the pairing check and the transform of the points.\<close>

definition prep_points ::
  "('img, 'timg) env \<Rightarrow> points option \<Rightarrow> labels option \<Rightarrow> nat \<Rightarrow> nat
     \<Rightarrow> py_error + points option \<times> labels option" where
  "prep_points env points_coords points_labels W H =
     (if points_coords \<noteq> None \<and> points_labels = None then Inl (ValueError coords_without_labels)
      else if points_labels \<noteq> None \<and> points_coords = None then Inl (ValueError labels_without_coords)
      else (case (points_coords, points_labels) of
              (Some c, Some l) \<Rightarrow> Inr (Some (apply_coords_torch env c (W, H)), Some l)
            | _ \<Rightarrow> Inr (None, None)))"

text \<open>
  \<^verbatim>\<open>__prep_prompts(self, boxes, points_coords, points_labels, dims)\<close> (lines 372-392):
  \<^verbatim>\<open>W, H = dims\<close>, the boxes, the points, and the \<^verbatim>\<open>return\<close>, which reads
  \<^verbatim>\<open>transformed_boxes\<close>.
\<close>

definition prep_prompts ::
  "('img, 'timg) env \<Rightarrow> boxes option \<Rightarrow> points option \<Rightarrow> labels option \<Rightarrow> nat list
     \<Rightarrow> py_error + boxes option \<times> points option \<times> labels option" where
  "prep_prompts env boxes points_coords points_labels dims =
     seq (unpack2 dims) (\<lambda>(W, H).
     seq (prep_boxes env boxes W H) (\<lambda>transformed_boxes.
     seq (prep_points env points_coords points_labels W H) (\<lambda>(transformed_points, points_labels).
     case transformed_boxes of
       Unbound \<Rightarrow> Inl (UnboundLocalError ''transformed_boxes'')
     | Bound tb \<Rightarrow> Inr (tb, transformed_points, points_labels))))"

text \<open>
  A call of the method with or without its last argument: \<^verbatim>\<open>dims\<close> has no default,
  so a call with three arguments raises \<^verbatim>\<open>TypeError\<close> before the body runs.
\<close>

definition call_prep_prompts ::
  "('img, 'timg) env \<Rightarrow> boxes option \<Rightarrow> points option \<Rightarrow> labels option \<Rightarrow> nat list option
     \<Rightarrow> py_error + boxes option \<times> points option \<times> labels option" where
  "call_prep_prompts env boxes points_coords points_labels dims_arg =
     (case dims_arg of
        None \<Rightarrow> Inl (TypeError ''__prep_prompts() missing 1 required positional argument: dims'')
      | Some dims \<Rightarrow> prep_prompts env boxes points_coords points_labels dims)"

section \<open>Segmentation: \<^verbatim>\<open>predict_SAM1\<close> and \<^verbatim>\<open>predict_SAM1_batch\<close>\<close>

text \<open>
  Lines 221-222, the value that is returned: \<^verbatim>\<open>masks.cpu()\<close> (the same tensor), then
  \<^verbatim>\<open>torch.any(masks, dim=0).permute(1, 2, 0).numpy()\<close>.
\<close>

definition aggregate_masks :: "mask_tensor \<Rightarrow> py_error + mask_tensor" where
  "aggregate_masks masks = torch_permute [1, 2, 0] (torch_any_dim0 masks)"

text \<open>
  Lines 219-222, shared by both paths. Line 219 calls \<^verbatim>\<open>postprocess_masks\<close> with the
  threshold 500: the name is looked up in the module first.
\<close>

definition combine_masks :: "('img, 'timg) env \<Rightarrow> mask_tensor \<Rightarrow> py_error + mask_tensor" where
  "combine_masks env masks =
     seq (load_global ''postprocess_masks'') (\<lambda>_.
     seq (postprocess_masks env masks 500) (\<lambda>masks.
     aggregate_masks masks))"

text \<open>
  \<^verbatim>\<open>predict_SAM1\<close> (lines 206-223). \<open>prepare\<close> is lines 206-210, which make no call
  on the segmenter: the conversion of the image and the call of \<^verbatim>\<open>__prep_prompts\<close> with
  \<^verbatim>\<open>image_array.shape[:2]\<close>. The arguments of \<^verbatim>\<open>predict_torch\<close> are evaluated in the
  order written: points, labels, boxes.
\<close>

definition prepare ::
  "('img, 'timg) env \<Rightarrow> 'img \<Rightarrow> boxes option \<Rightarrow> points option \<Rightarrow> labels option
     \<Rightarrow> py_error + image_array \<times> boxes option \<times> points option \<times> labels option" where
  "prepare env img boxes points_coords points_labels =
     seq (change_image_instance env img) (\<lambda>image_array.
     seq (call_prep_prompts env boxes points_coords points_labels
            (Some (take 2 (img_shape image_array))))
         (\<lambda>prompts. Inr (image_array, prompts)))"

definition predict_SAM1 ::
  "('img, 'timg) env \<Rightarrow> 'img \<Rightarrow> boxes option \<Rightarrow> points option \<Rightarrow> labels option
     \<Rightarrow> sam_event list \<Rightarrow> (py_error + mask_tensor) \<times> sam_event list" where
  "predict_SAM1 env img boxes points_coords points_labels evs =
     seqS (prepare env img boxes points_coords points_labels, evs)
          (\<lambda>(image_array, transformed_boxes, transformed_points, points_labels) evs.
     seqS (set_image env image_array evs) (\<lambda>_ evs.
     seqS (to_device transformed_points, evs) (\<lambda>point_coords evs.
     seqS (to_device points_labels, evs) (\<lambda>point_labels evs.
     seqS (to_device transformed_boxes, evs) (\<lambda>boxes evs.
     seqS (predict_torch env point_coords point_labels boxes evs) (\<lambda>masks evs.
     seqS (reset_image evs) (\<lambda>_ evs.
     (combine_masks env masks, evs))))))))"

text \<open>
  \<^verbatim>\<open>process_image\<close> (lines 258-286), the per-image step of the batch path. It calls
  \<^verbatim>\<open>__prep_prompts\<close> with three arguments and \<^verbatim>\<open>set_image\<close> with none.
\<close>

definition process_image ::
  "('img, 'timg) env \<Rightarrow> 'img \<Rightarrow> boxes option \<Rightarrow> points option \<Rightarrow> labels option
     \<Rightarrow> sam_event list \<Rightarrow> (py_error + mask_tensor) \<times> sam_event list" where
  "process_image env img box point_coord point_label evs =
     seqS (call_prep_prompts env box point_coord point_label None, evs)
          (\<lambda>(transformed_boxes, transformed_points, points_labels) evs.
     seqS (change_image_instance env img, evs) (\<lambda>img evs.
     seqS (Inl (TypeError ''set_image() missing 1 required positional argument: image''), evs)
          (\<lambda>(_ :: unit) evs.
     seqS (to_device transformed_points, evs) (\<lambda>point_coords evs.
     seqS (to_device points_labels, evs) (\<lambda>point_labels evs.
     seqS (to_device transformed_boxes, evs) (\<lambda>boxes evs.
     seqS (predict_torch env point_coords point_labels boxes evs) (\<lambda>masks evs.
     seqS (reset_image evs) (\<lambda>_ evs.
     (combine_masks env masks, evs)))))))))"

text \<open>A list comprehension over a step with effects: in order, the first error ends it.\<close>

fun for_each ::
  "('a \<Rightarrow> 's \<Rightarrow> (py_error + 'b) \<times> 's) \<Rightarrow> 'a list \<Rightarrow> 's \<Rightarrow> (py_error + 'b list) \<times> 's" where
  "for_each f [] s = (Inr [], s)"
| "for_each f (x # xs) s =
     (case f x s of
        (Inl e, s') \<Rightarrow> (Inl e, s')
      | (Inr y, s') \<Rightarrow>
          (case for_each f xs s' of
             (Inl e, s'') \<Rightarrow> (Inl e, s'')
           | (Inr ys, s'') \<Rightarrow> (Inr (y # ys), s'')))"

text \<open>
  \<^verbatim>\<open>predict_SAM1_batch\<close> (lines 244-288): the pairing check on the two point lists,
  the defaults for absent lists, the length check, the comprehension over
  \<^verbatim>\<open>zip(images, boxes, points_coords, points_labels)\<close>. After the pairing check the two
  point lists are both absent or both given.
\<close>

definition predict_SAM1_batch ::
  "('img, 'timg) env \<Rightarrow> 'img list \<Rightarrow> boxes option list option \<Rightarrow> points option list option
     \<Rightarrow> labels option list option \<Rightarrow> sam_event list
     \<Rightarrow> (py_error + mask_tensor list) \<times> sam_event list" where
  "predict_SAM1_batch env images boxes points_coords points_labels evs =
     (if points_coords \<noteq> None \<and> points_labels = None then (Inl (ValueError coords_without_labels), evs)
      else if points_labels \<noteq> None \<and> points_coords = None then (Inl (ValueError labels_without_coords), evs)
      else
        (let boxes = (case boxes of None \<Rightarrow> replicate (length images) None | Some bs \<Rightarrow> bs);
             (points_coords, points_labels) =
               (case (points_coords, points_labels) of
                  (Some cs, Some ls) \<Rightarrow> (cs, ls)
                | _ \<Rightarrow> (replicate (length images) None, replicate (length images) None))
         in if length images = length boxes \<and> length boxes = length points_coords
               \<and> length points_coords = length points_labels
            then for_each (\<lambda>(img, box, point_coords, point_labels).
                             process_image env img box point_coords point_labels)
                   (zip images (zip boxes (zip points_coords points_labels))) evs
            else (Inl (ValueError lengths_must_match), evs)))"

section \<open>Detection: \<^verbatim>\<open>predict_dino\<close> and \<^verbatim>\<open>predict_dino_batch\<close>\<close>

text \<open>
  Lines 152-154: \<^verbatim>\<open>W, H = image_array.shape[:2]\<close>, then the corner boxes times
  \<^verbatim>\<open>[W, H, W, H]\<close>. \<^verbatim>\<open>W\<close> is the first extent of the array and \<^verbatim>\<open>H\<close> the second.
\<close>

definition normalize_boxes ::
  "('img, 'timg) env \<Rightarrow> image_array \<Rightarrow> boxes \<Rightarrow> py_error + boxes" where
  "normalize_boxes env image_array boxes =
     seq (unpack2 (take 2 (img_shape image_array))) (\<lambda>(W, H).
     Inr (mul_boxes (box_cxcywh_to_xyxy env boxes) (real W, real H, real W, real H)))"

text \<open>
  \<^verbatim>\<open>predict_dino\<close> (lines 144-157). The arguments of \<^verbatim>\<open>predict\<close> (lines 146-151) are
  evaluated in the order written: \<^verbatim>\<open>model=self.groundingdino\<close> first and
  \<^verbatim>\<open>device=self.device\<close> last, before the detector is called. Line 156 calls
  \<^verbatim>\<open>postprocess_box\<close>: the name is looked up in the module first.
\<close>

definition predict_dino ::
  "('img, 'timg) env \<Rightarrow> py_instance \<Rightarrow> 'img \<Rightarrow> string \<Rightarrow> real \<Rightarrow> real \<Rightarrow> bool
     \<Rightarrow> py_error + boxes \<times> real list \<times> string list" where
  "predict_dino env self img text_prompt box_threshold text_threshold Normalize =
     seq (load_trans_image env img) (\<lambda>image_trans.
     seq (change_image_instance env img) (\<lambda>image_array.
     seq (py_getattr self ''groundingdino'') (\<lambda>model.
     seq (py_getattr self ''device'') (\<lambda>device.
     seq (dino_predict env model image_trans text_prompt box_threshold text_threshold device)
         (\<lambda>(boxes, logits, phrases).
     seq (if Normalize then normalize_boxes env image_array boxes else Inr boxes) (\<lambda>boxes.
     seq (load_global ''postprocess_box'') (\<lambda>_.
     postprocess_box env boxes logits phrases)))))))"

text \<open>\<^verbatim>\<open>list(map(f, xs))\<close> for a fallible \<open>f\<close>.\<close>

fun map_results :: "('a \<Rightarrow> py_error + 'b) \<Rightarrow> 'a list \<Rightarrow> py_error + 'b list" where
  "map_results f [] = Inr []"
| "map_results f (x # xs) =
     (case f x of
        Inl e \<Rightarrow> Inl e
      | Inr y \<Rightarrow> (case map_results f xs of Inl e \<Rightarrow> Inl e | Inr ys \<Rightarrow> Inr (y # ys)))"

text \<open>
  \<^verbatim>\<open>boxes, logits, phrases = zip(*results)\<close> for a list of triples: three tuples when
  the list is not empty; \<^verbatim>\<open>zip()\<close> of no arguments yields nothing, and unpacking
  nothing into three names raises \<^verbatim>\<open>ValueError\<close>.
\<close>

definition unzip3 :: "('a \<times> 'b \<times> 'c) list \<Rightarrow> py_error + 'a list \<times> 'b list \<times> 'c list" where
  "unzip3 results =
     (case results of
        [] \<Rightarrow> Inl (ValueError (unpack_mismatch 3 0))
      | r # rs \<Rightarrow> Inr (map fst results, map (fst \<circ> snd) results, map (snd \<circ> snd) results))"

text \<open>\<^verbatim>\<open>predict_dino_batch\<close> (lines 178-185).\<close>

definition predict_dino_batch ::
  "('img, 'timg) env \<Rightarrow> py_instance \<Rightarrow> 'img list \<Rightarrow> string \<Rightarrow> real \<Rightarrow> real \<Rightarrow> bool
     \<Rightarrow> py_error + boxes list \<times> real list list \<times> string list list" where
  "predict_dino_batch env self images text_prompt box_threshold text_threshold Normalize =
     seq (map_results
            (\<lambda>img. predict_dino env self img text_prompt box_threshold text_threshold Normalize)
            images)
         (\<lambda>results. unzip3 results)"

section \<open>The pipeline: \<^verbatim>\<open>predict_batch\<close>\<close>

text \<open>
  Lines 314-317 of \<^verbatim>\<open>predict_batch\<close>, the state of the local \<^verbatim>\<open>masks\<close> after them: it is
  assigned only under \<^verbatim>\<open>if mode_predict == 'box_predict'\<close>, from
  \<^verbatim>\<open>self.predict_sam_with_boxes\<close>, an attribute that is looked up on the instance. There
  is no \<^verbatim>\<open>else\<close>.
\<close>

definition masks_for_mode ::
  "('img, 'timg) env \<Rightarrow> py_instance \<Rightarrow> 'img \<Rightarrow> boxes list \<Rightarrow> string \<Rightarrow> sam_event list
     \<Rightarrow> (py_error + mask_tensor local_var) \<times> sam_event list" where
  "masks_for_mode env self img new_boxes mode_predict evs =
     (if mode_predict = ''box_predict'' then
        seqS (py_getattr self ''predict_sam_with_boxes'', evs) (\<lambda>_ evs.
        seqS (predict_sam_with_boxes env img new_boxes evs) (\<lambda>masks evs.
        seqS (aggregate_masks masks, evs) (\<lambda>masks evs.
        (Inr (Bound masks), evs))))
      else (Inr Unbound, evs))"

text \<open>Line 319, the \<^verbatim>\<open>return\<close>, which reads \<^verbatim>\<open>masks\<close>.\<close>

definition return_with_masks ::
  "'b \<Rightarrow> 'l \<Rightarrow> 'p \<Rightarrow> mask_tensor local_var \<Rightarrow> sam_event list
     \<Rightarrow> (py_error + 'b \<times> 'l \<times> 'p \<times> mask_tensor) \<times> sam_event list" where
  "return_with_masks new_boxes new_logits new_phrases masks evs =
     (case masks of
        Unbound \<Rightarrow> (Inl (UnboundLocalError ''masks''), evs)
      | Bound m \<Rightarrow> (Inr (new_boxes, new_logits, new_phrases, m), evs))"

text \<open>
  \<^verbatim>\<open>predict_batch\<close> (lines 300-319): detection without normalization, the image
  conversion, the box filter, then the two steps above.
\<close>

definition predict_batch ::
  "('img, 'timg) env \<Rightarrow> py_instance \<Rightarrow> 'img \<Rightarrow> string \<Rightarrow> real \<Rightarrow> real \<Rightarrow> real \<Rightarrow> string
     \<Rightarrow> sam_event list
     \<Rightarrow> (py_error + boxes list \<times> real list list \<times> string list list \<times> mask_tensor)
        \<times> sam_event list" where
  "predict_batch env self img text_prompt box_threshold process_box_threshold text_threshold
       mode_predict evs =
     seqS (predict_dino env self img text_prompt box_threshold text_threshold False, evs)
          (\<lambda>(boxes, logits, phrases) evs.
     seqS (change_image_instance env img, evs) (\<lambda>image_array evs.
     seqS (process_box_batch env (take 2 (img_shape image_array)) [boxes] [logits] [phrases]
             process_box_threshold, evs)
          (\<lambda>(new_boxes, new_logits, new_phrases) evs.
     seqS (masks_for_mode env self img new_boxes mode_predict evs) (\<lambda>masks evs.
     return_with_masks new_boxes new_logits new_phrases masks evs))))"

section \<open>Concrete inputs\<close>

text \<open>
  An environment of construction in which every collaborator works.
\<close>

definition build_env_ok :: build_env where
  "build_env_ok =
     \<lparr> SAM_NAMES_MODELS = [''SAM1'', ''SAM2''],
       SAM1_MODELS = [(''vit_h'', ''url_h''), (''vit_l'', ''url_l''), (''vit_b'', ''url_b'')],
       module_dir = ''/pkg/groundino_samnet'',
       cuda_is_available = False,
       hf_hub_download = (\<lambda>repo file. Inr (''/cache/'' @ file)),
       load_model = (\<lambda>cfg pth dev. Inr (PyModel ''GroundingDINO'')) \<rparr>"

text \<open>
  Two image arrays, 2 rows by 3 columns and 2 rows by 4 columns, with 3 channels.
\<close>

definition image_2x3 :: image_array where
  "image_2x3 = \<lparr> img_shape = [2, 3, 3], img_data = replicate 18 0 \<rparr>"

definition image_2x4 :: image_array where
  "image_2x4 = \<lparr> img_shape = [2, 4, 3], img_data = replicate 24 0 \<rparr>"

text \<open>
  Two instance masks for a 2 by 3 image, as \<^verbatim>\<open>predict_torch\<close> returns them with
  \<^verbatim>\<open>multimask_output=False\<close>: shape (2, 1, 2, 3).
\<close>

definition two_masks :: mask_tensor where
  "two_masks =
     \<lparr> shape = [2, 1, 2, 3],
       elem = (\<lambda>idx. idx \<in> set [[0, 0, 0, 0], [0, 0, 0, 1], [1, 0, 0, 1], [1, 0, 1, 2]]) \<rparr>"

text \<open>
  The conversion of GroundingDINO's \<^verbatim>\<open>box_ops\<close>: centre and size to the two corners.
\<close>

definition cxcywh_to_xyxy :: "boxes \<Rightarrow> boxes" where
  "cxcywh_to_xyxy =
     map (\<lambda>(cx, cy, w, h). (cx - 0.5 * w, cy - 0.5 * h, cx + 0.5 * w, cy + 0.5 * h))"

text \<open>
  An instance as construction is meant to leave it, with its detector and its
  segmenter.
\<close>

definition self_ok :: py_instance where
  "self_ok = [''groundingdino'' \<mapsto> PyModel ''GroundingDINO'', ''SAM1'' \<mapsto> PyModel ''vit_h'']"

text \<open>
  An environment of inference in which every collaborator works: images are given as
  arrays, the detector reports one box, the segmenter returns \<open>two_masks\<close>, and the
  coordinate transforms of the segmenter and the box filter keep what they get. For
  the three names that are not bound, the parameter is the error of the lookup.
\<close>

definition env_ok :: "(image_array, image_array) env" where
  "env_ok =
     \<lparr> load_trans_image = Inr,
       change_image_instance = Inr,
       dino_predict =
         (\<lambda>model img prompt bt tt device. Inr ([(0.5, 0.5, 0.5, 0.5)], [0.9], [''dog''])),
       box_cxcywh_to_xyxy = cxcywh_to_xyxy,
       postprocess_box = (\<lambda>bs ls ps. Inl (NameError ''postprocess_box'')),
       process_box_batch = (\<lambda>dims bs ls ps thr. Inr (bs, ls, ps)),
       apply_boxes_torch = (\<lambda>bs size. bs),
       apply_coords_torch = (\<lambda>cs size. cs),
       sam_set_image = (\<lambda>evs a. Inr ()),
       sam_predict_torch = (\<lambda>evs c l b. Inr two_masks),
       postprocess_masks = (\<lambda>m thr. Inl (NameError ''postprocess_masks'')),
       predict_sam_with_boxes =
         (\<lambda>img bs evs. (Inl (AttributeError ''predict_sam_with_boxes''), evs)) \<rparr>"

text \<open>The same with a segmenter whose mask prediction fails.\<close>

definition env_predict_fails :: "(image_array, image_array) env" where
  "env_predict_fails =
     env_ok \<lparr> sam_predict_torch := (\<lambda>evs c l b. Inl (RuntimeError ''CUDA out of memory'')) \<rparr>"

section \<open>Construction never succeeds\<close>

lemma setattr_device_fails: "py_setattr self ''device'' v = Inl (AttributeError ''device'')"
  by (simp add: py_setattr_def GSamNetwork_class_def)

lemma setattr_plain:
  "GSamNetwork_class name = None \<Longrightarrow> py_setattr self name v = Inr (self(name \<mapsto> v))"
  by (simp add: py_setattr_def)

lemma init_attributes_plain:
  "GSamNetwork_class ''_GSamNetwork__file_path'' = None"
  "GSamNetwork_class ''weights_path'' = None"
  "GSamNetwork_class ''default_sam1'' = None"
  "GSamNetwork_class ''default_sam2'' = None"
  by (simp_all add: GSamNetwork_class_def)

lemma init_valid_selector:
  assumes "sam \<in> set (SAM_NAMES_MODELS env)"
  shows "GSamNetwork_init env (PyStr sam) SAM_MODEL = (Inl (AttributeError ''device''), [])"
  using assms
  by (simp add: GSamNetwork_init_def init_attributes_def seq_def seqS_def setattr_plain
      init_attributes_plain setattr_device_fails py_getattr_def)

lemma init_never_succeeds: "\<not> succeeded (fst (GSamNetwork_init env SAM SAM_MODEL))"
proof (cases SAM)
  case (PyStr sam)
  show ?thesis
  proof (cases "sam \<in> set (SAM_NAMES_MODELS env)")
    case True
    then show ?thesis by (simp add: PyStr init_valid_selector succeeded_def)
  next
    case False
    then show ?thesis by (simp add: PyStr GSamNetwork_init_def succeeded_def)
  qed
qed (simp_all add: GSamNetwork_init_def succeeded_def)

text \<open>
  Claim C1. For every selector that passes validation (a string among
  \<^verbatim>\<open>SAM_NAMES_MODELS\<close>) and every \<^verbatim>\<open>SAM_MODEL\<close>, construction raises the
  \<^verbatim>\<open>AttributeError\<close> of the assignment to the setter-less property \<^verbatim>\<open>device\<close>, with no
  effect before it: nothing printed, nothing downloaded, no model loaded. And whatever
  the arguments, \<^verbatim>\<open>__init__\<close> never returns an instance.
\<close>

theorem C1_init_fails_before_loading:
  assumes "sam \<in> set (SAM_NAMES_MODELS env)"
  shows "GSamNetwork_init env (PyStr sam) SAM_MODEL = (Inl (AttributeError ''device''), [])
       \<and> models_loaded (snd (GSamNetwork_init env (PyStr sam) SAM_MODEL)) = []
       \<and> \<not> succeeded (fst (GSamNetwork_init env any_SAM any_SAM_MODEL))"
  using assms by (simp add: init_valid_selector models_loaded_def init_never_succeeds)

theorem C1_init_fails_witness:
  "''SAM1'' \<in> set (SAM_NAMES_MODELS build_env_ok)
   \<and> GSamNetwork_init build_env_ok (PyStr ''SAM1'') (PyStr ''vit_h'')
       = (Inl (AttributeError ''device''), [])
   \<and> models_loaded (snd (GSamNetwork_init build_env_ok (PyStr ''SAM1'') (PyStr ''vit_h''))) = []"
proof -
  have h: "''SAM1'' \<in> set (SAM_NAMES_MODELS build_env_ok)"
    by (simp add: build_env_ok_def)
  from C1_init_fails_before_loading [OF h, of "PyStr ''vit_h''" PyNone PyNone]
  show ?thesis using h by blast
qed

section \<open>Basic facts\<close>

lemma seq_simps: "seq (Inl e) f = Inl e" "seq (Inr x) f = f x"
  by (simp_all add: seq_def)

lemma seqS_simps: "seqS (Inl e, s) g = (Inl e, s)" "seqS (Inr x, s) g = g x s"
  by (simp_all add: seqS_def)

lemma image_held_simps:
  "image_held [] = No_image"
  "image_held (evs @ [Set_image a]) = Image_held a"
  "image_held (evs @ [Reset_image]) = No_image"
  "image_held (evs @ [Predict_torch c l b]) = image_held evs"
  by (simp_all add: image_held_def)

lemma np_clip_unchanged: "(np_clip v 0 1 = v) = (0 \<le> v \<and> v \<le> 1)"
  by (auto simp: np_clip_def min_def max_def)

lemma unpack2_pair: "unpack2 [W, H] = Inr (W, H)"
  by (simp add: unpack2_def)

text \<open>The names the methods read and the module or the class does not provide.\<close>

lemma unbound_names:
  "load_global ''postprocess_box'' = Inl (NameError ''postprocess_box'')"
  "load_global ''postprocess_masks'' = Inl (NameError ''postprocess_masks'')"
  by (simp_all add: load_global_def module_globals_def)

lemma getattr_device: "py_getattr self ''device'' = Inl RecursionError"
  by (simp add: py_getattr_def GSamNetwork_class_def)

lemma combine_masks_unbound: "combine_masks env masks = Inl (NameError ''postprocess_masks'')"
  by (simp add: combine_masks_def unbound_names seq_simps)

section \<open>The paths through \<^verbatim>\<open>predict_SAM1\<close>\<close>

lemma predict_SAM1_prepare_fails:
  "prepare env img boxes pc pl = Inl e \<Longrightarrow> predict_SAM1 env img boxes pc pl evs = (Inl e, evs)"
  by (simp add: predict_SAM1_def seqS_simps)

lemma predict_SAM1_set_image_fails:
  "prepare env img boxes pc pl = Inr (a, tb, tp, lb) \<Longrightarrow> sam_set_image env evs a = Inl e
     \<Longrightarrow> predict_SAM1 env img boxes pc pl evs = (Inl e, evs @ [Set_image_failed a])"
  by (simp add: predict_SAM1_def seqS_simps set_image_def)

lemma predict_SAM1_none_prompt:
  "prepare env img boxes pc pl = Inr (a, tb, tp, lb) \<Longrightarrow> sam_set_image env evs a = Inr u
     \<Longrightarrow> tb = None \<or> tp = None \<or> lb = None
     \<Longrightarrow> predict_SAM1 env img boxes pc pl evs = (Inl (AttributeError ''to''), evs @ [Set_image a])"
  by (cases tp; cases lb; cases tb)
     (simp_all add: predict_SAM1_def seqS_simps set_image_def to_device_def)

lemma predict_SAM1_all_prompts:
  "prepare env img boxes pc pl = Inr (a, Some b, Some c, Some l) \<Longrightarrow> sam_set_image env evs a = Inr u
     \<Longrightarrow> predict_SAM1 env img boxes pc pl evs =
         (case sam_predict_torch env (evs @ [Set_image a]) c l b of
            Inl e \<Rightarrow> (Inl e, evs @ [Set_image a, Predict_torch c l b])
          | Inr m \<Rightarrow> (combine_masks env m, evs @ [Set_image a, Predict_torch c l b, Reset_image]))"
  by (simp add: predict_SAM1_def seqS_simps set_image_def to_device_def predict_torch_def
      reset_image_def split: sum.splits)

lemma predict_SAM1_success:
  assumes "predict_SAM1 env img boxes pc pl evs = (Inr res, evs')"
  shows "\<exists>a b c l raw. prepare env img boxes pc pl = Inr (a, Some b, Some c, Some l)
           \<and> sam_predict_torch env (evs @ [Set_image a]) c l b = Inr raw
           \<and> combine_masks env raw = Inr res
           \<and> evs' = evs @ [Set_image a, Predict_torch c l b, Reset_image]"
proof (cases "prepare env img boxes pc pl")
  case (Inl e)
  with assms show ?thesis by (simp add: predict_SAM1_prepare_fails)
next
  case (Inr p)
  obtain a tb tp lb where p: "p = (a, tb, tp, lb)" by (cases p) auto
  show ?thesis
  proof (cases "sam_set_image env evs a")
    case (Inl e)
    with assms Inr p show ?thesis by (simp add: predict_SAM1_set_image_fails)
  next
    case set_ok: (Inr u)
    show ?thesis
    proof (cases "tb = None \<or> tp = None \<or> lb = None")
      case True
      with assms Inr p set_ok show ?thesis
        using predict_SAM1_none_prompt [of env img boxes pc pl a tb tp lb evs u] by simp
    next
      case False
      then obtain b c l where s: "tb = Some b" "tp = Some c" "lb = Some l" by auto
      with assms Inr p set_ok show ?thesis
        using predict_SAM1_all_prompts [of env img boxes pc pl a b c l evs u]
        by (auto split: sum.splits)
    qed
  qed
qed

section \<open>What \<^verbatim>\<open>__prep_prompts\<close> returns and raises\<close>

lemma prep_prompts_absent_sides:
  assumes "prep_prompts env boxes pc pl dims = Inr (tb, tp, lb)"
  shows "(boxes = None \<longrightarrow> tb = None) \<and> (pc = None \<or> pl = None \<longrightarrow> tp = None \<and> lb = None)"
  using assms
  by (auto simp: prep_prompts_def prep_boxes_def prep_points_def seq_def
      split: sum.splits prod.splits local_var.splits option.splits if_splits)

lemma prepare_absent_sides:
  assumes "prepare env img boxes pc pl = Inr (a, tb, tp, lb)"
  shows "(boxes = None \<longrightarrow> tb = None) \<and> (pc = None \<or> pl = None \<longrightarrow> tp = None \<and> lb = None)"
proof -
  from assms obtain dims where "prep_prompts env boxes pc pl dims = Inr (tb, tp, lb)"
    by (auto simp: prepare_def call_prep_prompts_def seq_def split: sum.splits)
  then show ?thesis by (rule prep_prompts_absent_sides)
qed

text \<open>
  Supporting fact for the pairing check of the single-image path: it is reached, and
  raises, whenever the statements before it (the unpacking of \<^verbatim>\<open>dims\<close> and the handling
  of the boxes) complete.
\<close>

lemma prep_prompts_pairing_error:
  assumes "unpack2 dims = Inr (W, H)" and "prep_boxes env boxes W H = Inr tb"
    and "(pc = None) \<noteq> (pl = None)"
  shows "prep_prompts env boxes pc pl dims =
           Inl (ValueError (if pl = None then coords_without_labels else labels_without_coords))"
  using assms by (auto simp: prep_prompts_def prep_points_def seq_simps)

text \<open>The pairing check of the batch path is its first statement.\<close>

lemma predict_SAM1_batch_pairing_error:
  assumes "(pc = None) \<noteq> (pl = None)"
  shows "predict_SAM1_batch env images boxes pc pl evs =
           (Inl (ValueError (if pl = None then coords_without_labels else labels_without_coords)), evs)"
  using assms by (auto simp: predict_SAM1_batch_def)

section \<open>The value computed for the return\<close>

lemma aggregate_masks_shape:
  assumes "aggregate_masks kept = Inr res"
  shows "\<exists>B C H W. shape kept = [B, C, H, W] \<and> shape res = [H, W, C]
           \<and> (\<forall>y x ch. elem res [y, x, ch] = (\<exists>i<B. elem kept [i, ch, y, x]))"
proof (cases "shape kept")
  case Nil
  with assms show ?thesis by (simp add: aggregate_masks_def torch_permute_def torch_any_dim0_def)
next
  case (Cons B rest)
  from assms Cons have len: "length rest = 3"
    by (simp add: aggregate_masks_def torch_permute_def torch_any_dim0_def split: if_splits)
  then obtain C H W where rest: "rest = [C, H, W]"
    by (cases rest; simp; cases "tl rest"; simp; cases "tl (tl rest)"; simp)
  have upt3: "[0..<3] = [0, 1, 2::nat]" by (simp add: upt_rec numeral_3_eq_3)
  from assms Cons rest show ?thesis
    by (auto simp: aggregate_masks_def torch_permute_def torch_any_dim0_def upt3 list_ex_iff
        numeral_2_eq_2 split: if_splits) force+
qed


text \<open>
  Supporting fact: the aggregation raises on every tensor that does not have four
  dimensions.
\<close>

lemma aggregate_masks_not_4d:
  assumes "length (shape t) \<noteq> 4"
  shows "\<not> succeeded (aggregate_masks t)"
proof
  assume "succeeded (aggregate_masks t)"
  then obtain res where "aggregate_masks t = Inr res"
    by (cases "aggregate_masks t") (simp_all add: succeeded_def)
  from aggregate_masks_shape [OF this] assms show False by auto
qed

text \<open>
  Supporting fact: no call of \<^verbatim>\<open>predict_SAM1\<close> returns a mask. A call that gets as far
  as line 219 raises \<^verbatim>\<open>NameError\<close> there.
\<close>

lemma predict_SAM1_never_succeeds:
  "\<not> succeeded (fst (predict_SAM1 env img boxes pc pl evs))"
proof
  assume "succeeded (fst (predict_SAM1 env img boxes pc pl evs))"
  then obtain res evs' where "predict_SAM1 env img boxes pc pl evs = (Inr res, evs')"
    by (cases "predict_SAM1 env img boxes pc pl evs")
       (auto simp: succeeded_def split: sum.splits)
  from predict_SAM1_success [OF this] show False
    by (auto simp: combine_masks_unbound)
qed

section \<open>Evaluations in the concrete environments\<close>

lemma prepare_no_prompts:
  "prepare env_ok image_2x3 None None None = Inr (image_2x3, None, None, None)"
  by (simp add: prepare_def env_ok_def seq_simps call_prep_prompts_def prep_prompts_def
      unpack2_def image_2x3_def prep_boxes_def prep_points_def)

lemma prepare_points_only:
  "prepare env_ok image_2x3 None (Some [(1, 1)]) (Some [1])
     = Inr (image_2x3, None, Some [(1, 1)], Some [1])"
  by (simp add: prepare_def env_ok_def seq_simps call_prep_prompts_def prep_prompts_def
      unpack2_def image_2x3_def prep_boxes_def prep_points_def)

lemma prepare_absolute_box:
  "prepare env_ok image_2x3 (Some [(5, 5, 10, 10)]) None None
     = Inl (UnboundLocalError ''transformed_boxes'')"
  by (simp add: prepare_def env_ok_def seq_simps call_prep_prompts_def prep_prompts_def
      unpack2_def image_2x3_def prep_boxes_def prep_points_def first_coord_def np_clip_def)

lemma prepare_coords_without_labels:
  "prepare env_ok image_2x3 None (Some [(1, 1)]) None = Inl (ValueError coords_without_labels)"
  by (simp add: prepare_def env_ok_def seq_simps call_prep_prompts_def prep_prompts_def
      unpack2_def image_2x3_def prep_boxes_def prep_points_def)

lemma prepare_all_prompts:
  "prepare env_ok image_2x3 (Some [(0.5, 0.5, 0.5, 0.5)]) (Some [(1, 1)]) (Some [1])
     = Inr (image_2x3, Some [(0.5, 0.75, 1.5, 2.25)], Some [(1, 1)], Some [1])"
  by (simp add: prepare_def env_ok_def seq_simps call_prep_prompts_def prep_prompts_def
      unpack2_def image_2x3_def prep_boxes_def prep_points_def first_coord_def np_clip_def
      mul_boxes_def cxcywh_to_xyxy_def)

lemma prepare_all_prompts_predict_fails:
  "prepare env_predict_fails image_2x3 (Some [(0.5, 0.5, 0.5, 0.5)]) (Some [(1, 1)]) (Some [1])
     = Inr (image_2x3, Some [(0.5, 0.75, 1.5, 2.25)], Some [(1, 1)], Some [1])"
  by (simp add: prepare_def env_predict_fails_def env_ok_def seq_simps call_prep_prompts_def
      prep_prompts_def unpack2_def image_2x3_def prep_boxes_def prep_points_def first_coord_def
      np_clip_def mul_boxes_def cxcywh_to_xyxy_def)

section \<open>Claim C2: release of the image context\<close>

text \<open>
  Claim C2, as the code has it. \<^verbatim>\<open>predict_SAM1\<close> has no \<^verbatim>\<open>try\<close>: \<^verbatim>\<open>reset_image\<close> is the
  statement after \<^verbatim>\<open>predict_torch\<close>. So the image context is released on the paths on
  which mask prediction returns, whether or not the post-processing that follows
  fails. When the preparation of lines 206-210 fails, the call makes no call on the
  segmenter. When a prompt is \<^verbatim>\<open>None\<close> (the \<^verbatim>\<open>.to\<close> fails) or \<^verbatim>\<open>predict_torch\<close> fails, the
  image set by the call is still held on return.
\<close>

theorem C2_release_only_after_prediction:
  "(prepare env img boxes pc pl = Inl e
    \<longrightarrow> predict_SAM1 env img boxes pc pl evs = (Inl e, evs))
   \<and> (prepare env img boxes pc pl = Inr (a, Some b, Some c, Some l)
      \<and> sam_set_image env evs a = Inr u
      \<and> sam_predict_torch env (evs @ [Set_image a]) c l b = Inr m
    \<longrightarrow> predict_SAM1 env img boxes pc pl evs
          = (combine_masks env m, evs @ [Set_image a, Predict_torch c l b, Reset_image])
        \<and> image_held (snd (predict_SAM1 env img boxes pc pl evs)) = No_image)
   \<and> (prepare env img boxes pc pl = Inr (a, Some b, Some c, Some l)
      \<and> sam_set_image env evs a = Inr u
      \<and> sam_predict_torch env (evs @ [Set_image a]) c l b = Inl e'
    \<longrightarrow> fst (predict_SAM1 env img boxes pc pl evs) = Inl e'
        \<and> image_held (snd (predict_SAM1 env img boxes pc pl evs)) = Image_held a)
   \<and> (prepare env img boxes pc pl = Inr (a, tb, tp, lb)
      \<and> sam_set_image env evs a = Inr u
      \<and> (tb = None \<or> tp = None \<or> lb = None)
    \<longrightarrow> fst (predict_SAM1 env img boxes pc pl evs) = Inl (AttributeError ''to'')
        \<and> image_held (snd (predict_SAM1 env img boxes pc pl evs)) = Image_held a)"
proof (intro conjI impI)
  assume "prepare env img boxes pc pl = Inl e"
  then show "predict_SAM1 env img boxes pc pl evs = (Inl e, evs)"
    by (rule predict_SAM1_prepare_fails)
next
  assume h: "prepare env img boxes pc pl = Inr (a, Some b, Some c, Some l)
      \<and> sam_set_image env evs a = Inr u
      \<and> sam_predict_torch env (evs @ [Set_image a]) c l b = Inr m"
  then show r: "predict_SAM1 env img boxes pc pl evs =
      (combine_masks env m, evs @ [Set_image a, Predict_torch c l b, Reset_image])"
    using predict_SAM1_all_prompts [of env img boxes pc pl a b c l evs u] by simp
  show "image_held (snd (predict_SAM1 env img boxes pc pl evs)) = No_image"
    by (simp add: r image_held_def)
next
  assume h: "prepare env img boxes pc pl = Inr (a, Some b, Some c, Some l)
      \<and> sam_set_image env evs a = Inr u
      \<and> sam_predict_torch env (evs @ [Set_image a]) c l b = Inl e'"
  then have r: "predict_SAM1 env img boxes pc pl evs =
      (Inl e', evs @ [Set_image a, Predict_torch c l b])"
    using predict_SAM1_all_prompts [of env img boxes pc pl a b c l evs u] by simp
  show "fst (predict_SAM1 env img boxes pc pl evs) = Inl e'"
    by (simp add: r)
  show "image_held (snd (predict_SAM1 env img boxes pc pl evs)) = Image_held a"
    by (simp add: r image_held_def)
next
  assume h: "prepare env img boxes pc pl = Inr (a, tb, tp, lb)
      \<and> sam_set_image env evs a = Inr u
      \<and> (tb = None \<or> tp = None \<or> lb = None)"
  then have r: "predict_SAM1 env img boxes pc pl evs =
      (Inl (AttributeError ''to''), evs @ [Set_image a])"
    using predict_SAM1_none_prompt [of env img boxes pc pl a tb tp lb evs u] by blast
  show "fst (predict_SAM1 env img boxes pc pl evs) = Inl (AttributeError ''to'')"
    by (simp add: r)
  show "image_held (snd (predict_SAM1 env img boxes pc pl evs)) = Image_held a"
    by (simp add: r image_held_def)
qed

theorem C2_release_witness:
  "predict_SAM1 env_ok image_2x3 (Some [(5, 5, 10, 10)]) None None [Set_image image_2x4]
     = (Inl (UnboundLocalError ''transformed_boxes''), [Set_image image_2x4])
   \<and> fst (predict_SAM1 env_ok image_2x3 (Some [(0.5, 0.5, 0.5, 0.5)])
            (Some [(1, 1)]) (Some [1]) []) = Inl (NameError ''postprocess_masks'')
   \<and> image_held (snd (predict_SAM1 env_ok image_2x3 (Some [(0.5, 0.5, 0.5, 0.5)])
                       (Some [(1, 1)]) (Some [1]) [])) = No_image
   \<and> fst (predict_SAM1 env_predict_fails image_2x3 (Some [(0.5, 0.5, 0.5, 0.5)])
            (Some [(1, 1)]) (Some [1]) []) = Inl (RuntimeError ''CUDA out of memory'')
   \<and> image_held (snd (predict_SAM1 env_predict_fails image_2x3 (Some [(0.5, 0.5, 0.5, 0.5)])
                       (Some [(1, 1)]) (Some [1]) [])) = Image_held image_2x3
   \<and> fst (predict_SAM1 env_ok image_2x3 None (Some [(1, 1)]) (Some [1]) [])
       = Inl (AttributeError ''to'')
   \<and> image_held (snd (predict_SAM1 env_ok image_2x3 None (Some [(1, 1)]) (Some [1]) []))
       = Image_held image_2x3"
proof -
  have set_ok: "sam_set_image env_ok [] image_2x3 = Inr ()"
    "sam_set_image env_predict_fails [] image_2x3 = Inr ()"
    by (simp_all add: env_ok_def env_predict_fails_def)
  have predicted: "sam_predict_torch env_ok ([] @ [Set_image image_2x3]) [(1, 1)] [1]
         [(0.5, 0.75, 1.5, 2.25)] = Inr two_masks"
    "sam_predict_torch env_predict_fails ([] @ [Set_image image_2x3]) [(1, 1)] [1]
         [(0.5, 0.75, 1.5, 2.25)] = Inl (RuntimeError ''CUDA out of memory'')"
    by (simp_all add: env_ok_def env_predict_fails_def)
  have w1: "predict_SAM1 env_ok image_2x3 (Some [(5, 5, 10, 10)]) None None [Set_image image_2x4]
     = (Inl (UnboundLocalError ''transformed_boxes''), [Set_image image_2x4])"
    using C2_release_only_after_prediction
      [where env = env_ok and img = image_2x3 and boxes = "Some [(5, 5, 10, 10)]"
         and pc = None and pl = None and evs = "[Set_image image_2x4]"
         and e = "UnboundLocalError ''transformed_boxes''"]
      prepare_absolute_box by blast
  have w2: "predict_SAM1 env_ok image_2x3 (Some [(0.5, 0.5, 0.5, 0.5)])
                  (Some [(1, 1)]) (Some [1]) []
        = (combine_masks env_ok two_masks,
           [] @ [Set_image image_2x3, Predict_torch [(1, 1)] [1] [(0.5, 0.75, 1.5, 2.25)],
                 Reset_image])
     \<and> image_held (snd (predict_SAM1 env_ok image_2x3 (Some [(0.5, 0.5, 0.5, 0.5)])
                         (Some [(1, 1)]) (Some [1]) [])) = No_image"
    using C2_release_only_after_prediction
      [where env = env_ok and img = image_2x3 and boxes = "Some [(0.5, 0.5, 0.5, 0.5)]"
         and pc = "Some [(1, 1)]" and pl = "Some [1]" and evs = "[]" and a = image_2x3
         and b = "[(0.5, 0.75, 1.5, 2.25)]" and c = "[(1, 1)]" and l = "[1]" and u = "()"
         and m = two_masks]
      prepare_all_prompts set_ok(1) predicted(1) by blast
  have w3: "fst (predict_SAM1 env_predict_fails image_2x3 (Some [(0.5, 0.5, 0.5, 0.5)])
                  (Some [(1, 1)]) (Some [1]) []) = Inl (RuntimeError ''CUDA out of memory'')
     \<and> image_held (snd (predict_SAM1 env_predict_fails image_2x3 (Some [(0.5, 0.5, 0.5, 0.5)])
                         (Some [(1, 1)]) (Some [1]) [])) = Image_held image_2x3"
    using C2_release_only_after_prediction
      [where env = env_predict_fails and img = image_2x3
         and boxes = "Some [(0.5, 0.5, 0.5, 0.5)]"
         and pc = "Some [(1, 1)]" and pl = "Some [1]" and evs = "[]" and a = image_2x3
         and b = "[(0.5, 0.75, 1.5, 2.25)]" and c = "[(1, 1)]" and l = "[1]" and u = "()"
         and e' = "RuntimeError ''CUDA out of memory''"]
      prepare_all_prompts_predict_fails set_ok(2) predicted(2) by blast
  have w4: "fst (predict_SAM1 env_ok image_2x3 None (Some [(1, 1)]) (Some [1]) [])
       = Inl (AttributeError ''to'')
     \<and> image_held (snd (predict_SAM1 env_ok image_2x3 None (Some [(1, 1)]) (Some [1]) []))
       = Image_held image_2x3"
    using C2_release_only_after_prediction
      [where env = env_ok and img = image_2x3 and boxes = None
         and pc = "Some [(1, 1)]" and pl = "Some [1]" and evs = "[]" and a = image_2x3
         and tb = None and tp = "Some [(1, 1)]" and lb = "Some [1]" and u = "()"]
      prepare_points_only set_ok(1) by blast
  from w1 w2 w3 w4 show ?thesis by (simp add: combine_masks_unbound image_held_def)
qed

text \<open>
  The claim as stated fails on the call with no prompt at all: \<^verbatim>\<open>set_image\<close> has been
  called, \<^verbatim>\<open>None.to\<close> raises, and the image is still held when the call returns.
\<close>

theorem C2_counterexample:
  "predict_SAM1 env_ok image_2x3 None None None []
     = (Inl (AttributeError ''to''), [Set_image image_2x3])
   \<and> image_held (snd (predict_SAM1 env_ok image_2x3 None None None [])) = Image_held image_2x3
   \<and> image_held (snd (predict_SAM1 env_ok image_2x3 None None None [])) \<noteq> No_image"
proof -
  have "predict_SAM1 env_ok image_2x3 None None None []
     = (Inl (AttributeError ''to''), [] @ [Set_image image_2x3])"
    by (rule predict_SAM1_none_prompt [OF prepare_no_prompts, of "[]" "()"])
       (simp_all add: env_ok_def)
  then show ?thesis by (simp add: image_held_def)
qed

section \<open>Claim C4: the returned mask\<close>






section \<open>Claim C10: a call with an absent prompt\<close>

text \<open>
  Claim C10, as the code has it. When \<^verbatim>\<open>boxes\<close>, \<^verbatim>\<open>points_coords\<close> or \<^verbatim>\<open>points_labels\<close>
  is \<^verbatim>\<open>None\<close>, \<^verbatim>\<open>predict_SAM1\<close> never returns a mask. If the preparation of lines
  206-210 returns, it returns \<^verbatim>\<open>None\<close> for the absent side (the boxes, or both the
  points and the labels), and once \<^verbatim>\<open>set_image\<close> has run the call raises the
  \<^verbatim>\<open>AttributeError\<close> of \<^verbatim>\<open>None.to\<close>: the log ends with \<^verbatim>\<open>set_image\<close>, so
  \<^verbatim>\<open>predict_torch\<close> was not called, and the image is not released. The preparation may
  also raise before that (the pairing check, the unassigned \<^verbatim>\<open>transformed_boxes\<close>).
\<close>

theorem C10_absent_prompt_never_succeeds:
  assumes "boxes = None \<or> pc = None \<or> pl = None"
  shows "\<not> succeeded (fst (predict_SAM1 env img boxes pc pl evs))
       \<and> (prepare env img boxes pc pl = Inr (a, tb, tp, lb) \<longrightarrow>
            (boxes = None \<longrightarrow> tb = None)
            \<and> (pc = None \<or> pl = None \<longrightarrow> tp = None \<and> lb = None)
            \<and> (sam_set_image env evs a = Inr u \<longrightarrow>
                 predict_SAM1 env img boxes pc pl evs
                   = (Inl (AttributeError ''to''), evs @ [Set_image a])))"
proof (intro conjI impI)
  show "\<not> succeeded (fst (predict_SAM1 env img boxes pc pl evs))"
  proof
    assume "succeeded (fst (predict_SAM1 env img boxes pc pl evs))"
    then obtain res evs' where "predict_SAM1 env img boxes pc pl evs = (Inr res, evs')"
      by (cases "predict_SAM1 env img boxes pc pl evs")
         (auto simp: succeeded_def split: sum.splits)
    from predict_SAM1_success [OF this] obtain a b c l where
      "prepare env img boxes pc pl = Inr (a, Some b, Some c, Some l)" by blast
    from prepare_absent_sides [OF this] assms show False by auto
  qed
next
  assume p: "prepare env img boxes pc pl = Inr (a, tb, tp, lb)"
  { assume "boxes = None"
    with prepare_absent_sides [OF p] show "tb = None" by simp }
  { assume "pc = None \<or> pl = None"
    with prepare_absent_sides [OF p] show "tp = None" "lb = None" by simp_all }
  { assume s: "sam_set_image env evs a = Inr u"
    from prepare_absent_sides [OF p] assms have "tb = None \<or> tp = None \<or> lb = None" by auto
    from predict_SAM1_none_prompt [OF p s this]
    show "predict_SAM1 env img boxes pc pl evs = (Inl (AttributeError ''to''), evs @ [Set_image a])" . }
qed

theorem C10_absent_prompt_witness:
  "\<not> succeeded (fst (predict_SAM1 env_ok image_2x3 None (Some [(1, 1)]) (Some [1]) []))
   \<and> prepare env_ok image_2x3 None (Some [(1, 1)]) (Some [1])
       = Inr (image_2x3, None, Some [(1, 1)], Some [1])
   \<and> sam_set_image env_ok [] image_2x3 = Inr ()
   \<and> predict_SAM1 env_ok image_2x3 None (Some [(1, 1)]) (Some [1]) []
       = (Inl (AttributeError ''to''), [Set_image image_2x3])"
proof -
  have s: "sam_set_image env_ok [] image_2x3 = Inr ()" by (simp add: env_ok_def)
  from C10_absent_prompt_never_succeeds
    [where boxes = None and pc = "Some [(1, 1)]" and pl = "Some [1]" and env = env_ok
       and img = image_2x3 and evs = "[]" and a = image_2x3 and tb = None
       and tp = "Some [(1, 1)]" and lb = "Some [1]" and u = "()"]
    prepare_points_only s
  show ?thesis by (simp add: succeeded_def)
qed

text \<open>
  The claim as stated fails when the boxes are absent and only the point coordinates
  are given: \<^verbatim>\<open>__prep_prompts\<close> does not return \<^verbatim>\<open>None\<close> for the boxes, it raises the
  pairing error, and the call ends there without any call on the segmenter.
\<close>

theorem C10_counterexample:
  "prepare env_ok image_2x3 None (Some [(1, 1)]) None = Inl (ValueError coords_without_labels)
   \<and> predict_SAM1 env_ok image_2x3 None (Some [(1, 1)]) None []
       = (Inl (ValueError coords_without_labels), [])
   \<and> fst (predict_SAM1 env_ok image_2x3 None (Some [(1, 1)]) None [])
       \<noteq> Inl (AttributeError ''to'')"
  using predict_SAM1_prepare_fails [OF prepare_coords_without_labels, of "[]"]
  by (simp add: prepare_coords_without_labels)

section \<open>Claim C9: boxes whose first coordinate is outside [0, 1]\<close>

lemma prep_boxes_outside:
  assumes "first_coord bs = Inr v" and "v < 0 \<or> 1 < v"
  shows "prep_boxes env (Some bs) W H = Inr Unbound"
proof -
  from assms(2) have "np_clip v 0 1 \<noteq> v" by (auto simp: np_clip_unchanged)
  with assms(1) show ?thesis by (simp add: prep_boxes_def seq_simps)
qed

text \<open>
  Claim C9, as the code has it. When the first coordinate of the boxes is outside
  [0, 1], lines 374-380 leave \<^verbatim>\<open>transformed_boxes\<close> unassigned and \<^verbatim>\<open>__prep_prompts\<close> never
  returns, whatever its other arguments. Called with a pair \<^verbatim>\<open>dims\<close>, it raises the
  pairing \<^verbatim>\<open>ValueError\<close> of lines 382-385 when exactly one of \<^verbatim>\<open>points_coords\<close> and
  \<^verbatim>\<open>points_labels\<close> is given, and otherwise the \<^verbatim>\<open>UnboundLocalError\<close> of the \<^verbatim>\<open>return\<close>.
\<close>

theorem C9_absolute_boxes_never_returned:
  assumes "first_coord bs = Inr v" and "v < 0 \<or> 1 < v"
  shows "prep_boxes env (Some bs) W H = Inr Unbound
       \<and> prep_prompts env (Some bs) pc pl [W, H] =
           Inl (if pc \<noteq> None \<and> pl = None then ValueError coords_without_labels
                else if pl \<noteq> None \<and> pc = None then ValueError labels_without_coords
                else UnboundLocalError ''transformed_boxes'')
       \<and> \<not> succeeded (prep_prompts env (Some bs) pc pl dims)"
proof (intro conjI)
  show u: "prep_boxes env (Some bs) W H = Inr Unbound"
    by (rule prep_boxes_outside [OF assms])
  show "prep_prompts env (Some bs) pc pl [W, H] =
           Inl (if pc \<noteq> None \<and> pl = None then ValueError coords_without_labels
                else if pl \<noteq> None \<and> pc = None then ValueError labels_without_coords
                else UnboundLocalError ''transformed_boxes'')"
    by (cases pc; cases pl)
       (simp_all add: prep_prompts_def unpack2_pair seq_simps u prep_points_def)
  show "\<not> succeeded (prep_prompts env (Some bs) pc pl dims)"
  proof (cases "unpack2 dims")
    case (Inl e)
    then show ?thesis by (simp add: prep_prompts_def seq_simps succeeded_def)
  next
    case (Inr p)
    obtain W' H' where p: "p = (W', H')" by (cases p)
    have "prep_boxes env (Some bs) W' H' = Inr Unbound"
      by (rule prep_boxes_outside [OF assms])
    with Inr p show ?thesis
      by (cases pc; cases pl)
         (simp_all add: prep_prompts_def seq_simps prep_points_def succeeded_def)
  qed
qed

theorem C9_absolute_boxes_witness:
  "first_coord [(5, 5, 10, 10)] = Inr 5
   \<and> prep_boxes env_ok (Some [(5, 5, 10, 10)]) 2 3 = Inr Unbound
   \<and> prep_prompts env_ok (Some [(5, 5, 10, 10)]) None None [2, 3]
       = Inl (UnboundLocalError ''transformed_boxes'')
   \<and> prep_prompts env_ok (Some [(5, 5, 10, 10)]) (Some [(1, 1)]) (Some [1]) [2, 3]
       = Inl (UnboundLocalError ''transformed_boxes'')"
proof -
  have f: "first_coord [(5, 5, 10, 10)] = Inr 5" by (simp add: first_coord_def)
  have o: "(5::real) < 0 \<or> 1 < (5::real)" by simp
  from C9_absolute_boxes_never_returned [OF f o, of env_ok 2 3 None None]
       C9_absolute_boxes_never_returned [OF f o, of env_ok 2 3 "Some [(1, 1)]" "Some [1]"] f
  show ?thesis by simp
qed

text \<open>
  The claim as stated fails when only the point coordinates come with the absolute
  box: the error is the pairing \<^verbatim>\<open>ValueError\<close>, raised before the \<^verbatim>\<open>return\<close> is reached.
\<close>

theorem C9_counterexample:
  "first_coord [(5, 5, 10, 10)] = Inr 5
   \<and> np_clip 5 0 1 \<noteq> 5
   \<and> prep_prompts env_ok (Some [(5, 5, 10, 10)]) (Some [(1, 1)]) None [2, 3]
       = Inl (ValueError coords_without_labels)
   \<and> prep_prompts env_ok (Some [(5, 5, 10, 10)]) (Some [(1, 1)]) None [2, 3]
       \<noteq> Inl (UnboundLocalError ''transformed_boxes'')"
  by (simp add: prep_prompts_def unpack2_def seq_simps prep_boxes_def first_coord_def
      np_clip_def prep_points_def)

section \<open>Claim C7: the length check of the batch path\<close>

lemma process_image_TypeError:
  "process_image env img box c l evs =
     (Inl (TypeError ''__prep_prompts() missing 1 required positional argument: dims''), evs)"
  by (simp add: process_image_def call_prep_prompts_def seqS_simps)

lemma for_each_first_fails:
  assumes "\<And>x s. f x s = (Inl e, s)" and "xs \<noteq> []"
  shows "for_each f xs s = (Inl e, s)"
  using assms by (cases xs) simp_all

text \<open>
  Claim C7, as the code has it, for the length check. When the two point lists are
  both given or both absent (otherwise the pairing check of lines 244-247 raises
  first) and a list that is given is not as long as \<^verbatim>\<open>images\<close>, the call raises the
  length \<^verbatim>\<open>ValueError\<close> of line 256 and makes no call on the segmenter.
\<close>

theorem C7_length_mismatch:
  assumes "(pc = None) = (pl = None)"
    and "(\<exists>bs. boxes = Some bs \<and> length bs \<noteq> length images)
         \<or> (\<exists>cs. pc = Some cs \<and> length cs \<noteq> length images)
         \<or> (\<exists>ls. pl = Some ls \<and> length ls \<noteq> length images)"
  shows "predict_SAM1_batch env images boxes pc pl evs = (Inl (ValueError lengths_must_match), evs)"
  using assms
  by (cases boxes; cases pc; cases pl) (auto simp: predict_SAM1_batch_def)

theorem C7_length_mismatch_witness:
  "predict_SAM1_batch env_ok [image_2x3] (Some []) None None []
     = (Inl (ValueError lengths_must_match), [])
   \<and> predict_SAM1_batch env_ok [image_2x3] None (Some [Some [(1, 1)], None]) (Some [Some [1], None]) []
     = (Inl (ValueError lengths_must_match), [])"
proof -
  have a: "((None :: points option list option) = None) = ((None :: labels option list option) = None)"
    by simp
  have b: "(\<exists>bs. Some [] = Some bs \<and> length bs \<noteq> length [image_2x3])
         \<or> (\<exists>cs. (None :: points option list option) = Some cs \<and> length cs \<noteq> length [image_2x3])
         \<or> (\<exists>ls. (None :: labels option list option) = Some ls \<and> length ls \<noteq> length [image_2x3])"
    by simp
  have c: "(Some [Some [(1, 1)], None] = (None :: points option list option))
         = (Some [Some [1], None] = (None :: labels option list option))"
    by simp
  have d: "(\<exists>bs. (None :: boxes option list option) = Some bs \<and> length bs \<noteq> length [image_2x3])
         \<or> (\<exists>cs. Some [Some [(1, 1)], None] = Some cs \<and> length (cs :: points option list) \<noteq> length [image_2x3])
         \<or> (\<exists>ls. Some [Some [1], None] = Some ls \<and> length (ls :: labels option list) \<noteq> length [image_2x3])"
    by simp
  from C7_length_mismatch [OF a b, of env_ok "[]"] C7_length_mismatch [OF c d, of env_ok "[]"]
  show ?thesis by simp
qed

text \<open>
  The claim as stated fails in two ways. A boxes list of the wrong length that comes
  with point coordinates and no labels is rejected by the pairing check, not by the
  length check. And a batch that passes both checks is not segmented: \<^verbatim>\<open>process_image\<close>
  calls \<^verbatim>\<open>__prep_prompts\<close> without its \<^verbatim>\<open>dims\<close> argument, so the first image raises
  \<^verbatim>\<open>TypeError\<close> before any call on the segmenter.
\<close>

theorem C7_counterexample:
  "predict_SAM1_batch env_ok [image_2x3] (Some []) (Some [Some [(1, 1)]]) None []
     = (Inl (ValueError coords_without_labels), [])
   \<and> predict_SAM1_batch env_ok [image_2x3] (Some []) (Some [Some [(1, 1)]]) None []
     \<noteq> (Inl (ValueError lengths_must_match), [])
   \<and> predict_SAM1_batch env_ok [image_2x3] (Some [Some [(0.5, 0.5, 0.5, 0.5)]])
       (Some [Some [(1, 1)]]) (Some [Some [1]]) []
     = (Inl (TypeError ''__prep_prompts() missing 1 required positional argument: dims''), [])"
  by (simp add: predict_SAM1_batch_def process_image_TypeError)

text \<open>
  Supporting facts for the batch path: every batch that passes the two checks and is
  not empty ends in the \<^verbatim>\<open>TypeError\<close> of its first image; the empty batch returns
  the empty list.
\<close>

lemma predict_SAM1_batch_never_segments:
  assumes "(pc = None) = (pl = None)" and "images \<noteq> []"
    and "\<And>bs. boxes = Some bs \<Longrightarrow> length bs = length images"
    and "\<And>cs. pc = Some cs \<Longrightarrow> length cs = length images"
    and "\<And>ls. pl = Some ls \<Longrightarrow> length ls = length images"
  shows "predict_SAM1_batch env images boxes pc pl evs =
     (Inl (TypeError ''__prep_prompts() missing 1 required positional argument: dims''), evs)"
proof -
  have fe: "\<And>xs. xs \<noteq> [] \<Longrightarrow>
      for_each (\<lambda>(img, box, point_coords, point_labels).
                  process_image env img box point_coords point_labels) xs evs =
      (Inl (TypeError ''__prep_prompts() missing 1 required positional argument: dims''), evs)"
    by (rule for_each_first_fails) (auto simp: process_image_TypeError)
  have nz: "\<And>(ys :: 'c list). length ys = length images \<Longrightarrow> ys \<noteq> []"
    using assms(2) by auto
  show ?thesis
    using assms
    by (cases boxes; cases pc; cases pl)
       (auto simp: predict_SAM1_batch_def intro!: fe dest: nz)
qed

lemma predict_SAM1_batch_empty:
  "predict_SAM1_batch env [] None None None evs = (Inr [], evs)"
  by (simp add: predict_SAM1_batch_def)

section \<open>Claim C3: the scaling of the detector's boxes\<close>

text \<open>
  Supporting facts: no call of \<^verbatim>\<open>predict_dino\<close> returns. On an instance with its
  detector, once the two image conversions have succeeded, the read of \<^verbatim>\<open>self.device\<close>
  on line 151 raises \<^verbatim>\<open>RecursionError\<close> before the detector is called.
\<close>

lemma predict_dino_never_succeeds:
  "\<not> succeeded (predict_dino env self img text_prompt box_threshold text_threshold Normalize)"
  by (simp add: predict_dino_def seq_def getattr_device succeeded_def split: sum.splits)

lemma predict_dino_RecursionError:
  assumes "load_trans_image env img = Inr image_trans"
    and "change_image_instance env img = Inr image_array"
    and "py_getattr self ''groundingdino'' = Inr model"
  shows "predict_dino env self img text_prompt box_threshold text_threshold Normalize
           = Inl RecursionError"
  using assms by (simp add: predict_dino_def seq_simps getattr_device)

lemma getattr_groundingdino:
  "py_getattr self_ok ''groundingdino'' = Inr (PyModel ''GroundingDINO'')"
  by (simp add: py_getattr_def GSamNetwork_class_def self_ok_def)




section \<open>Claim C5: a mode other than \<^verbatim>\<open>box_predict\<close>\<close>

text \<open>
  Supporting facts. \<^verbatim>\<open>predict_batch\<close> never returns, for any mode: its first statement
  is the call of \<^verbatim>\<open>predict_dino\<close>. And lines 314-319 on their own, for a mode other than
  \<^verbatim>\<open>box_predict\<close>, leave \<^verbatim>\<open>masks\<close> unassigned and raise \<^verbatim>\<open>UnboundLocalError\<close> at the
  \<^verbatim>\<open>return\<close>: there is no check of the mode.
\<close>

lemma predict_batch_never_succeeds:
  "\<not> succeeded (fst (predict_batch env self img prompt bt pbt tt mode evs))"
proof (cases "predict_dino env self img prompt bt tt False")
  case (Inl e)
  then show ?thesis by (simp add: predict_batch_def seqS_simps succeeded_def)
next
  case (Inr r)
  with predict_dino_never_succeeds [of env self img prompt bt tt False]
  show ?thesis by (simp add: succeeded_def)
qed

lemma other_mode_unbound_masks:
  assumes "mode \<noteq> ''box_predict''"
  shows "seqS (masks_for_mode env self img new_boxes mode evs)
           (return_with_masks new_boxes new_logits new_phrases)
         = (Inl (UnboundLocalError ''masks''), evs)"
  using assms by (simp add: masks_for_mode_def return_with_masks_def seqS_simps)

text \<open>
  Claim C5 at the mode \<^verbatim>\<open>unsupported_value\<close>, on an instance with its detector and with
  every collaborator working: the call raises the \<^verbatim>\<open>RecursionError\<close> of line 151, as it
  does for every mode, and the statements that deal with the mode (lines 314-319)
  raise \<^verbatim>\<open>UnboundLocalError\<close> for \<^verbatim>\<open>masks\<close>. The class has no check of the mode and no
  error of its own for it.
\<close>

theorem C5_unsupported_mode_not_rejected:
  "predict_batch env_ok self_ok image_2x3 ''dog'' 0.3 0.5 0.25 ''unsupported_value'' []
     = (Inl RecursionError, [])
   \<and> predict_batch env_ok self_ok image_2x3 ''dog'' 0.3 0.5 0.25 ''box_predict'' []
     = (Inl RecursionError, [])
   \<and> seqS (masks_for_mode env_ok self_ok image_2x3 [[(0.5, 0.5, 0.5, 0.5)]]
             ''unsupported_value'' [])
        (return_with_masks [[(0.5, 0.5, 0.5, 0.5)]] [[0.9 :: real]] [[''dog'']])
     = (Inl (UnboundLocalError ''masks''), [])"
proof -
  have d: "predict_dino env_ok self_ok image_2x3 ''dog'' 0.3 0.25 False = Inl RecursionError"
    by (rule predict_dino_RecursionError [OF _ _ getattr_groundingdino])
       (simp_all add: env_ok_def)
  then show ?thesis
    by (simp add: predict_batch_def seqS_simps masks_for_mode_def return_with_masks_def)
qed

section \<open>Claim C6: the pairing check\<close>

text \<open>
  Claim C6 at an empty box tensor (a detection that found nothing) with point
  coordinates and no labels, or labels and no coordinates: in the single-image path
  \<^verbatim>\<open>boxes[0][0]\<close> (line 375) raises \<^verbatim>\<open>IndexError\<close> before the pairing check of lines
  382-385 is reached. The batch path checks the pairing first (lines 244-247).
\<close>

theorem C6_empty_boxes_raise_before_pairing_check:
  "prep_prompts env (Some []) (Some c) None [W, H]
     = Inl (IndexError ''index 0 is out of bounds for dimension 0 with size 0'')
   \<and> prep_prompts env (Some []) None (Some l) [W, H]
     = Inl (IndexError ''index 0 is out of bounds for dimension 0 with size 0'')
   \<and> predict_SAM1 env_ok image_2x3 (Some []) (Some [(1, 1)]) None []
     = (Inl (IndexError ''index 0 is out of bounds for dimension 0 with size 0''), [])"
  by (simp add: predict_SAM1_def prepare_def call_prep_prompts_def prep_prompts_def
      unpack2_def prep_boxes_def first_coord_def seq_simps seqS_simps env_ok_def image_2x3_def)

section \<open>Claim C8: detection on an empty sequence of images\<close>

text \<open>
  Claim C8 at the empty sequence: \<^verbatim>\<open>results\<close> is empty, \<^verbatim>\<open>zip(*results)\<close> yields nothing,
  and unpacking it into \<^verbatim>\<open>boxes, logits, phrases\<close> raises \<^verbatim>\<open>ValueError\<close> (expected 3,
  got 0). No triple of empty lists is returned.
\<close>

theorem C8_empty_batch_raises:
  "predict_dino_batch env self [] text_prompt box_threshold text_threshold Normalize
     = Inl (ValueError (unpack_mismatch 3 0))"
  by (simp add: predict_dino_batch_def unzip3_def seq_simps)

text \<open>
  Supporting fact: on a sequence that is not empty the first detection raises, so no
  call of \<^verbatim>\<open>predict_dino_batch\<close> returns.
\<close>

lemma predict_dino_batch_never_succeeds:
  "\<not> succeeded (predict_dino_batch env self images text_prompt box_threshold text_threshold
                  Normalize)"
proof (cases images)
  case Nil
  then show ?thesis by (simp add: predict_dino_batch_def unzip3_def seq_simps succeeded_def)
next
  case (Cons img rest)
  with predict_dino_never_succeeds [of env self img text_prompt box_threshold text_threshold
      Normalize]
  show ?thesis
    by (simp add: predict_dino_batch_def seq_def succeeded_def split: sum.splits)
qed

end
